theory Spec2Isabelle
  imports Complex_Main
begin

section \<open>Numbers, errors, vectors and colours\<close>

text \<open>
  The ray tracer of \<^verbatim>\<open>src/index.html\<close> computes with JavaScript numbers. They are
  modelled as the real numbers they approximate: rounding, \<^verbatim>\<open>NaN\<close> and the 32-bit
  storage of gl-matrix vectors are outside this model. The one infinite value the code
  handles on purpose, the initial \<^verbatim>\<open>closestT = Infinity\<close>, has a constructor of its own.

  An exception is a value: \<open>Error msg\<close> is a \<^verbatim>\<open>throw new Error(msg)\<close> of the source,
  \<open>TypeError\<close> is the exception the JavaScript engine raises itself (an assignment to a
  \<^verbatim>\<open>const\<close> binding, a property read on \<^verbatim>\<open>undefined\<close>).

  The guards \<^verbatim>\<open>if (!x || ...) throw new Error(...)\<close> at the head of the functions are
  modelled where an argument can be absent: in the constructors, whose arguments are
  optional values, and for the material of \<^verbatim>\<open>calculatePhongLighting\<close>. Everywhere else
  the arguments are vectors, rays, arrays and objects, which are never falsy. The scene
  is an array of \<^verbatim>\<open>Sphere\<close> and \<^verbatim>\<open>Plane\<close> objects, so the branch of
  \<^verbatim>\<open>findClosestIntersection\<close> that skips objects of another class has no counterpart.
\<close>

datatype error = Error string | TypeError

text \<open>A gl-matrix \<^verbatim>\<open>vec3\<close>: the components with index 0, 1 and 2.\<close>

datatype vec3 = Vec3 real real real

text \<open>A colour object \<^verbatim>\<open>{r, g, b}\<close>.\<close>

datatype color = RGB real real real

fun add :: "vec3 \<Rightarrow> vec3 \<Rightarrow> vec3" where
  "add (Vec3 a0 a1 a2) (Vec3 b0 b1 b2) = Vec3 (a0 + b0) (a1 + b1) (a2 + b2)"

fun subtract :: "vec3 \<Rightarrow> vec3 \<Rightarrow> vec3" where
  "subtract (Vec3 a0 a1 a2) (Vec3 b0 b1 b2) = Vec3 (a0 - b0) (a1 - b1) (a2 - b2)"

fun scale :: "vec3 \<Rightarrow> real \<Rightarrow> vec3" where
  "scale (Vec3 a0 a1 a2) s = Vec3 (a0 * s) (a1 * s) (a2 * s)"

fun dot :: "vec3 \<Rightarrow> vec3 \<Rightarrow> real" where
  "dot (Vec3 a0 a1 a2) (Vec3 b0 b1 b2) = a0 * b0 + a1 * b1 + a2 * b2"

text \<open>
  \<^verbatim>\<open>vec3.normalize\<close> of gl-matrix 3.4.3 divides by the length only when the squared
  length is positive; the zero vector is returned unchanged.
\<close>

fun normalize :: "vec3 \<Rightarrow> vec3" where
  "normalize (Vec3 a0 a1 a2) =
     (let len = a0 * a0 + a1 * a1 + a2 * a2;
          len' = (if len > 0 then 1 / sqrt len else len)
      in Vec3 (a0 * len') (a1 * len') (a2 * len'))"

fun length_vec :: "vec3 \<Rightarrow> real" where
  "length_vec (Vec3 a0 a1 a2) = sqrt (a0 * a0 + a1 * a1 + a2 * a2)"

text \<open>
  \<^verbatim>\<open>Math.pow\<close> on the reals. An exponent 0 gives 1 for every base, a positive base
  gives the real power, base 0 with a positive exponent gives 0, and a negative base
  with an integral exponent gives the signed power. The two remaining cases have no
  real value in JavaScript (\<^verbatim>\<open>Infinity\<close> for base 0 with a negative exponent,
  \<^verbatim>\<open>NaN\<close> for a negative base with a fractional exponent); the value 0 stands for
  them here, and no theorem below is about them.
\<close>

definition Math_pow :: "real \<Rightarrow> real \<Rightarrow> real" where
  "Math_pow base e =
     (if e = 0 then 1
      else if base > 0 then base powr e
      else if base = 0 then 0
      else if e = of_int \<lfloor>e\<rfloor>
           then (if even \<lfloor>e\<rfloor> then (- base) powr e else - ((- base) powr e))
      else 0)"

text \<open>\<^verbatim>\<open>reflect(incident, normal)\<close>.\<close>

definition reflect :: "vec3 \<Rightarrow> vec3 \<Rightarrow> vec3" where
  "reflect incident normal =
     (let dotProduct = dot incident normal
      in subtract incident (scale normal (2 * dotProduct)))"

text \<open>
  \<^verbatim>\<open>refract(incident, normal, ior)\<close>. The source declares \<^verbatim>\<open>const cosi\<close> and, in the
  branch \<^verbatim>\<open>cosi < 0\<close>, first executes \<^verbatim>\<open>cosi = -cosi\<close>: an assignment to a constant
  binding, on which JavaScript throws a \<^verbatim>\<open>TypeError\<close> before the indices are swapped
  or the normal is flipped. The rest of the function runs only for \<^verbatim>\<open>cosi >= 0\<close>,
  with \<^verbatim>\<open>etai = 1\<close>, \<^verbatim>\<open>etat = ior\<close> and \<^verbatim>\<open>n = normal\<close>.
\<close>

definition refract :: "vec3 \<Rightarrow> vec3 \<Rightarrow> real \<Rightarrow> error + vec3" where
  "refract incident normal ior =
     (let cosi = - min (max (dot incident normal) (- 1)) 1;
          etai = 1;
          etat = ior;
          n = normal
      in if cosi < 0 then Inl TypeError
         else
           let eta = etai / etat;
               k = 1 - eta * eta * (1 - cosi * cosi)
           in if k < 0 then Inr (reflect incident normal)
              else Inr (add (scale incident eta) (scale n (eta * cosi - sqrt k))))"

section \<open>Scene entities\<close>

record Ray =
  origin :: vec3
  direction :: vec3

record Material =
  ambient :: color
  diffuse :: color
  specular :: color
  shininess :: real
  reflectivity :: real
  transparency :: real
  ior :: real
  isRefractive :: bool

record Light =
  position :: vec3
  ambient :: color
  diffuse :: color
  specular :: color

text \<open>
  A scene object is a \<^verbatim>\<open>Sphere\<close> (center, radius, material) or a \<^verbatim>\<open>Plane\<close> (point,
  normal, material). The first component is the identity of the JavaScript object:
  \<^verbatim>\<open>===\<close> on two objects is equality of the values below, identity included. The
  constructors do not check the material, so it may be \<^verbatim>\<open>undefined\<close> (\<open>None\<close>).
\<close>

datatype Primitive =
    Sphere nat vec3 real "Material option"
  | Plane nat vec3 vec3 "Material option"

fun material_of :: "Primitive \<Rightarrow> Material option" where
  "material_of (Sphere i c rad m) = m"
| "material_of (Plane i p n m) = m"

text \<open>The options object of the \<^verbatim>\<open>Material\<close> constructor; an absent key is \<open>None\<close>.\<close>

record MaterialOptions =
  opt_reflectivity :: "real option"
  opt_transparency :: "real option"
  opt_ior :: "real option"
  opt_isRefractive :: "bool option"

text \<open>
  \<^verbatim>\<open>x || d\<close> on an optional number: the default replaces \<^verbatim>\<open>undefined\<close> and 0, the
  falsy numbers of the model.
\<close>

definition num_or :: "real option \<Rightarrow> real \<Rightarrow> real" where
  "num_or v d = (case v of None \<Rightarrow> d | Some a \<Rightarrow> if a = 0 then d else a)"

definition bool_or :: "bool option \<Rightarrow> bool \<Rightarrow> bool" where
  "bool_or v d = (case v of None \<Rightarrow> d | Some a \<Rightarrow> if a then a else d)"

definition new_Material ::
  "color option \<Rightarrow> color option \<Rightarrow> color option \<Rightarrow> real option \<Rightarrow> MaterialOptions
     \<Rightarrow> error + Material" where
  "new_Material amb dif spc shin options =
     (case (amb, dif, spc) of
        (Some a, Some d, Some s) \<Rightarrow>
          Inr \<lparr> Material.ambient = a, Material.diffuse = d, Material.specular = s,
                shininess = num_or shin 32,
                reflectivity = num_or (opt_reflectivity options) 0,
                transparency = num_or (opt_transparency options) 0,
                ior = num_or (opt_ior options) 1,
                isRefractive = bool_or (opt_isRefractive options) False \<rparr>
      | _ \<Rightarrow> Inl (Error ''Material requires ambient, diffuse, and specular properties''))"

definition new_Light ::
  "vec3 option \<Rightarrow> color option \<Rightarrow> color option \<Rightarrow> color option \<Rightarrow> error + Light" where
  "new_Light pos amb dif spc =
     (case pos of
        None \<Rightarrow> Inl (Error ''Light requires position'')
      | Some p \<Rightarrow>
          Inr \<lparr> position = p,
                Light.ambient = (case amb of None \<Rightarrow> RGB 0.2 0.2 0.2 | Some a \<Rightarrow> a),
                Light.diffuse = (case dif of None \<Rightarrow> RGB 0.8 0.8 0.8 | Some d \<Rightarrow> d),
                Light.specular = (case spc of None \<Rightarrow> RGB 1 1 1 | Some s \<Rightarrow> s) \<rparr>)"

text \<open>
  \<^verbatim>\<open>new Sphere(center, radius, material)\<close> throws on \<^verbatim>\<open>!center || !radius\<close>: a missing
  center, a missing radius, or the falsy radius 0. The first argument of the model is
  the identity the new object gets.
\<close>

definition new_Sphere ::
  "nat \<Rightarrow> vec3 option \<Rightarrow> real option \<Rightarrow> Material option \<Rightarrow> error + Primitive" where
  "new_Sphere i cen rad mat =
     (case (cen, rad) of
        (Some c, Some rd) \<Rightarrow>
          if rd = 0 then Inl (Error ''Sphere requires center and radius'')
          else Inr (Sphere i c rd mat)
      | _ \<Rightarrow> Inl (Error ''Sphere requires center and radius''))"

definition new_Plane ::
  "nat \<Rightarrow> vec3 option \<Rightarrow> vec3 option \<Rightarrow> Material option \<Rightarrow> error + Primitive" where
  "new_Plane i pnt nrm mat =
     (case (pnt, nrm) of
        (Some p, Some n) \<Rightarrow> Inr (Plane i p (normalize n) mat)
      | _ \<Rightarrow> Inl (Error ''Plane requires point and normal''))"

section \<open>Intersections\<close>

text \<open>
  \<^verbatim>\<open>intersectRaySphere(ray, sphere)\<close> and \<^verbatim>\<open>intersectRayPlane(ray, plane)\<close>, on the
  fields of the object; \<open>- 1\<close> is "no intersection". For a zero direction the source
  divides 0 by 0 and every comparison with the resulting \<^verbatim>\<open>NaN\<close> is false; HOL's
  \<open>0 / 0 = 0\<close> fails the same comparisons (\<open>t > 0.001\<close>).
\<close>

definition intersectRaySphere :: "Ray \<Rightarrow> vec3 \<Rightarrow> real \<Rightarrow> real" where
  "intersectRaySphere ray cen rad =
     (let oc = subtract (origin ray) cen;
          a = dot (direction ray) (direction ray);
          b = 2 * dot oc (direction ray);
          c = dot oc oc - rad * rad;
          discriminant = b * b - 4 * a * c
      in if discriminant < 0 then - 1
         else (- b - sqrt discriminant) / (2 * a))"

definition intersectRayPlane :: "Ray \<Rightarrow> vec3 \<Rightarrow> vec3 \<Rightarrow> real" where
  "intersectRayPlane ray pnt nrm =
     (let denom = dot (direction ray) nrm
      in if \<bar>denom\<bar> < 0.0001 then - 1
         else
           let v = subtract pnt (origin ray);
               t = dot v nrm / denom
           in if t > 0 then t else - 1)"

text \<open>
  The dispatch \<^verbatim>\<open>if (object instanceof Sphere) ... else if (object instanceof Plane) ...\<close>
  that the source writes out at every use.
\<close>

fun intersect :: "Ray \<Rightarrow> Primitive \<Rightarrow> real" where
  "intersect ray (Sphere i c rad m) = intersectRaySphere ray c rad"
| "intersect ray (Plane i p n m) = intersectRayPlane ray p n"

fun getNormal :: "Primitive \<Rightarrow> vec3 \<Rightarrow> vec3" where
  "getNormal (Sphere i c rad m) intersectionPoint = normalize (subtract intersectionPoint c)"
| "getNormal (Plane i p n m) intersectionPoint = n"

definition getIntersectionPoint :: "Ray \<Rightarrow> real \<Rightarrow> vec3" where
  "getIntersectionPoint ray t = add (origin ray) (scale (direction ray) t)"

text \<open>
  The result object \<^verbatim>\<open>{t, object, point}\<close> of \<^verbatim>\<open>findClosestIntersection\<close>. The loop
  assigns its three variables \<^verbatim>\<open>closestT\<close>, \<^verbatim>\<open>closestObject\<close> and
  \<^verbatim>\<open>intersectionPoint\<close> together, so their state is either the initial
  \<^verbatim>\<open>(Infinity, null, null)\<close>, here \<open>NoHit\<close>, or the distance, object and point of an
  accepted hit. A caller's test \<^verbatim>\<open>if (intersection.object)\<close> is the case distinction.
\<close>

datatype Intersection = NoHit | Hit real Primitive vec3

text \<open>\<^verbatim>\<open>t < closestT\<close>, where \<^verbatim>\<open>closestT\<close> is \<^verbatim>\<open>Infinity\<close> before the first hit.\<close>

fun closer_than :: "real \<Rightarrow> Intersection \<Rightarrow> bool" where
  "closer_than t NoHit = True"
| "closer_than t (Hit closestT closestObject intersectionPoint) = (t < closestT)"

text \<open>The loop \<^verbatim>\<open>for (const object of objects)\<close> on the variables it updates.\<close>

fun findClosestIntersection_loop :: "Ray \<Rightarrow> Primitive list \<Rightarrow> Intersection \<Rightarrow> Intersection" where
  "findClosestIntersection_loop ray [] closest = closest"
| "findClosestIntersection_loop ray (object # rest) closest =
     (let t = intersect ray object
      in if t > 0.001 \<and> closer_than t closest
         then findClosestIntersection_loop ray rest (Hit t object (getIntersectionPoint ray t))
         else findClosestIntersection_loop ray rest closest)"

definition findClosestIntersection :: "Ray \<Rightarrow> Primitive list \<Rightarrow> Intersection" where
  "findClosestIntersection ray objects = findClosestIntersection_loop ray objects NoHit"

section \<open>Phong terms and the shadow test\<close>

text \<open>Componentwise arithmetic on \<^verbatim>\<open>{r, g, b}\<close>, as the source writes it channel by channel.\<close>

fun times_color :: "color \<Rightarrow> color \<Rightarrow> color" where
  "times_color (RGB ar ag ab) (RGB br bg bb) = RGB (ar * br) (ag * bg) (ab * bb)"

fun modulate :: "color \<Rightarrow> color \<Rightarrow> real \<Rightarrow> color" where
  "modulate (RGB ar ag ab) (RGB br bg bb) k = RGB (ar * br * k) (ag * bg * k) (ab * bb * k)"

fun plus_color :: "color \<Rightarrow> color \<Rightarrow> color" where
  "plus_color (RGB ar ag ab) (RGB br bg bb) = RGB (ar + br) (ag + bg) (ab + bb)"

fun plus_scaled :: "color \<Rightarrow> color \<Rightarrow> real \<Rightarrow> color" where
  "plus_scaled (RGB ar ag ab) (RGB br bg bb) k = RGB (ar + br * k) (ag + bg * k) (ab + bb * k)"

fun plus_scaled2 :: "color \<Rightarrow> color \<Rightarrow> real \<Rightarrow> real \<Rightarrow> color" where
  "plus_scaled2 (RGB ar ag ab) (RGB br bg bb) k l =
     RGB (ar + br * k * l) (ag + bg * k * l) (ab + bb * k * l)"

fun clamp_color :: "color \<Rightarrow> color" where
  "clamp_color (RGB ar ag ab) = RGB (min ar 1) (min ag 1) (min ab 1)"

definition calculateDiffuse :: "Material \<Rightarrow> Light \<Rightarrow> vec3 \<Rightarrow> vec3 \<Rightarrow> color" where
  "calculateDiffuse m light normal lightDir =
     (let dotProduct = max (dot normal lightDir) 0
      in modulate (Material.diffuse m) (Light.diffuse light) dotProduct)"

definition calculateSpecular :: "Material \<Rightarrow> Light \<Rightarrow> vec3 \<Rightarrow> vec3 \<Rightarrow> vec3 \<Rightarrow> color" where
  "calculateSpecular m light normal lightDir viewDir =
     (let reflectDir = reflect (scale lightDir (- 1)) normal;
          spec = Math_pow (max (dot viewDir reflectDir) 0) (shininess m)
      in modulate (Material.specular m) (Light.specular light) spec)"

text \<open>
  The occluder loop of \<^verbatim>\<open>isInShadow\<close>. \<^verbatim>\<open>object.material.transparency\<close> on an object
  without material is a property read on \<^verbatim>\<open>undefined\<close>.
\<close>

fun isInShadow_loop :: "Ray \<Rightarrow> real \<Rightarrow> Primitive option \<Rightarrow> Primitive list \<Rightarrow> error + bool" where
  "isInShadow_loop shadowRay distanceToLight currentObject [] = Inr False"
| "isInShadow_loop shadowRay distanceToLight currentObject (object # rest) =
     (if Some object = currentObject
      then isInShadow_loop shadowRay distanceToLight currentObject rest
      else
        case material_of object of
          None \<Rightarrow> Inl TypeError
        | Some m \<Rightarrow>
            if transparency m > 0 then
              (let t = intersect shadowRay object
               in if t > 0.001 \<and> t < distanceToLight then
                    (if transparency m \<ge> 0.9
                     then isInShadow_loop shadowRay distanceToLight currentObject rest
                     else Inr (transparency m < 0.5))
                  else isInShadow_loop shadowRay distanceToLight currentObject rest)
            else
              (let t = intersect shadowRay object
               in if t > 0.001 \<and> t < distanceToLight then Inr True
                  else isInShadow_loop shadowRay distanceToLight currentObject rest))"

definition isInShadow :: "vec3 \<Rightarrow> vec3 \<Rightarrow> Primitive list \<Rightarrow> Primitive option \<Rightarrow> error + bool" where
  "isInShadow point lightPos objects currentObject =
     (let lightDir = normalize (subtract lightPos point);
          shadowRayOrigin = add point (scale lightDir 0.001);
          shadowRay = \<lparr> origin = shadowRayOrigin, direction = lightDir \<rparr>;
          distanceToLight = length_vec (subtract lightPos point)
      in isInShadow_loop shadowRay distanceToLight currentObject objects)"

section \<open>The recursive shading engine\<close>

definition MAX_DEPTH :: nat where
  "MAX_DEPTH = 5"

definition backgroundColor :: color where
  "backgroundColor = RGB (50 / 255) (50 / 255) (50 / 255)"

text \<open>The constant \<^verbatim>\<open>fresnelReflectivity\<close> of the refractive branch.\<close>

definition fresnelReflectivity :: "Material \<Rightarrow> vec3 \<Rightarrow> vec3 \<Rightarrow> real" where
  "fresnelReflectivity m viewDir normal =
     reflectivity m + (1 - reflectivity m) * Math_pow (1 - \<bar>dot viewDir normal\<bar>) 5"

text \<open>The specular-only loop over the lights of the refractive branch.\<close>

fun lights_refractive :: "Material \<Rightarrow> vec3 \<Rightarrow> vec3 \<Rightarrow> vec3 \<Rightarrow> Light list \<Rightarrow> color \<Rightarrow> color" where
  "lights_refractive m normal viewDir point [] finalColor = finalColor"
| "lights_refractive m normal viewDir point (light # rest) finalColor =
     (let lightDir = normalize (subtract (position light) point)
      in lights_refractive m normal viewDir point rest
           (plus_scaled finalColor (calculateSpecular m light normal lightDir viewDir) 0.5))"

text \<open>The loop over the lights of the opaque branch; a shadowed light is skipped.\<close>

fun lights_opaque ::
  "Material \<Rightarrow> vec3 \<Rightarrow> vec3 \<Rightarrow> vec3 \<Rightarrow> Primitive list \<Rightarrow> Primitive option \<Rightarrow> Light list \<Rightarrow> color
     \<Rightarrow> error + color" where
  "lights_opaque m normal viewDir point objects currentObject [] finalColor = Inr finalColor"
| "lights_opaque m normal viewDir point objects currentObject (light # rest) finalColor =
     (let lightDir = normalize (subtract (position light) point)
      in case isInShadow point (position light) objects currentObject of
           Inl e \<Rightarrow> Inl e
         | Inr shadowed \<Rightarrow>
             if shadowed
             then lights_opaque m normal viewDir point objects currentObject rest finalColor
             else lights_opaque m normal viewDir point objects currentObject rest
                    (plus_color finalColor
                       (plus_color (calculateDiffuse m light normal lightDir)
                                   (calculateSpecular m light normal lightDir viewDir))))"

text \<open>
  \<^verbatim>\<open>calculatePhongLighting(material, lights, normal, viewDir, point, objects,
  currentObject, depth)\<close>. Of the arguments its first guard tests, only the material can
  be missing here: a recursive call passes the material of the object that was hit.
  \<^verbatim>\<open>lights[0].ambient\<close> on an empty array is a property read on \<^verbatim>\<open>undefined\<close>.
  The successive values of the mutable \<^verbatim>\<open>finalColor\<close> are \<open>finalColor\<close>,
  \<open>finalColor1\<close>, \<open>finalColor2\<close>.
\<close>

function calculatePhongLighting ::
  "Material option \<Rightarrow> Light list \<Rightarrow> vec3 \<Rightarrow> vec3 \<Rightarrow> vec3 \<Rightarrow> Primitive list \<Rightarrow> Primitive option
     \<Rightarrow> nat \<Rightarrow> error + color" where
  "calculatePhongLighting material lights normal viewDir point objects currentObject depth =
     (case material of
        None \<Rightarrow> Inl (Error ''All parameters are required for Phong lighting calculation'')
      | Some m \<Rightarrow>
          if depth > MAX_DEPTH then Inr (RGB 0 0 0)
          else
            (case lights of
               [] \<Rightarrow> Inl TypeError
             | light0 # others \<Rightarrow>
                 let finalColor = times_color (Material.ambient m) (Light.ambient light0)
                 in if isRefractive m \<and> transparency m > 0 then
                      let fresnel = fresnelReflectivity m viewDir normal
                      in (case
                           (if fresnel > 0 then
                              let reflectDir = reflect (scale viewDir (- 1)) normal;
                                  reflectRayOrigin = add point (scale reflectDir 0.001);
                                  reflectRay =
                                    \<lparr> origin = reflectRayOrigin, direction = reflectDir \<rparr>
                              in (case findClosestIntersection reflectRay objects of
                                    NoHit \<Rightarrow> Inr finalColor
                                  | Hit t obj p \<Rightarrow>
                                      let reflectNormal = getNormal obj p;
                                          reflectViewDir =
                                            normalize (subtract (origin reflectRay) p)
                                      in (case calculatePhongLighting (material_of obj) lights
                                                 reflectNormal reflectViewDir p objects (Some obj)
                                                 (depth + 1) of
                                            Inl e \<Rightarrow> Inl e
                                          | Inr reflectionColor \<Rightarrow>
                                              Inr (plus_scaled finalColor reflectionColor fresnel)))
                            else Inr finalColor) of
                           Inl e \<Rightarrow> Inl e
                         | Inr finalColor1 \<Rightarrow>
                             let refractFactor = 1 - fresnel
                             in (case
                                  (if refractFactor > 0 then
                                     (case refract (scale viewDir (- 1)) normal (ior m) of
                                        Inl e \<Rightarrow> Inl e
                                      | Inr refractDir \<Rightarrow>
                                          let refractRayOrigin =
                                                add point (scale refractDir 0.001);
                                              refractRay =
                                                \<lparr> origin = refractRayOrigin,
                                                  direction = refractDir \<rparr>
                                          in (case findClosestIntersection refractRay objects of
                                                NoHit \<Rightarrow>
                                                  Inr (plus_scaled2 finalColor1 backgroundColor
                                                         (transparency m) refractFactor)
                                              | Hit t obj p \<Rightarrow>
                                                  let refractNormal = getNormal obj p;
                                                      refractViewDir =
                                                        normalize (subtract (origin refractRay) p)
                                                  in (case calculatePhongLighting (material_of obj)
                                                             lights refractNormal refractViewDir p
                                                             objects (Some obj) (depth + 1) of
                                                        Inl e \<Rightarrow> Inl e
                                                      | Inr refractionColor \<Rightarrow>
                                                          Inr (plus_scaled2 finalColor1
                                                                 refractionColor (transparency m)
                                                                 refractFactor))))
                                   else Inr finalColor1) of
                                  Inl e \<Rightarrow> Inl e
                                | Inr finalColor2 \<Rightarrow>
                                    Inr (clamp_color
                                           (lights_refractive m normal viewDir point lights
                                              finalColor2))))
                    else
                      (case lights_opaque m normal viewDir point objects currentObject lights
                              finalColor of
                         Inl e \<Rightarrow> Inl e
                       | Inr finalColor1 \<Rightarrow>
                           (case
                             (if reflectivity m > 0 \<and> depth < MAX_DEPTH then
                                let reflectDir = reflect (scale viewDir (- 1)) normal;
                                    reflectRayOrigin = add point (scale reflectDir 0.001);
                                    reflectRay =
                                      \<lparr> origin = reflectRayOrigin, direction = reflectDir \<rparr>
                                in (case findClosestIntersection reflectRay objects of
                                      NoHit \<Rightarrow> Inr finalColor1
                                    | Hit t obj p \<Rightarrow>
                                        let reflectNormal = getNormal obj p;
                                            reflectViewDir =
                                              normalize (subtract (origin reflectRay) p)
                                        in (case calculatePhongLighting (material_of obj) lights
                                                   reflectNormal reflectViewDir p objects
                                                   (Some obj) (depth + 1) of
                                              Inl e \<Rightarrow> Inl e
                                            | Inr reflectionColor \<Rightarrow>
                                                Inr (plus_scaled finalColor1 reflectionColor
                                                       (reflectivity m))))
                              else Inr finalColor1) of
                             Inl e \<Rightarrow> Inl e
                           | Inr finalColor2 \<Rightarrow> Inr (clamp_color finalColor2)))))"
  by pat_completeness auto
termination
  by (relation "measure (\<lambda>(material, lights, normal, viewDir, point, objects, currentObject, depth).
                   Suc MAX_DEPTH - depth)")
     (simp_all (no_asm))

declare calculatePhongLighting.simps [simp del]

subsection \<open>The engine with a record of its calls\<close>

text \<open>
  The same function, returning in addition the events of the invocation in the order
  they happen: \<open>Shade d\<close> when an invocation at depth \<open>d\<close> has passed the depth cutoff and
  starts shading, \<open>RefractCall m\<close> when an invocation on the material \<open>m\<close> calls
  \<^verbatim>\<open>refract\<close>. Its second component is \<open>calculatePhongLighting\<close> (lemma
  \<open>traced_result\<close> below).
\<close>

datatype event = Shade nat | RefractCall Material

function calculatePhongLighting_traced ::
  "Material option \<Rightarrow> Light list \<Rightarrow> vec3 \<Rightarrow> vec3 \<Rightarrow> vec3 \<Rightarrow> Primitive list \<Rightarrow> Primitive option
     \<Rightarrow> nat \<Rightarrow> event list \<times> (error + color)" where
  "calculatePhongLighting_traced material lights normal viewDir point objects currentObject depth =
     (case material of
        None \<Rightarrow> ([], Inl (Error ''All parameters are required for Phong lighting calculation''))
      | Some m \<Rightarrow>
          if depth > MAX_DEPTH then ([], Inr (RGB 0 0 0))
          else
            (case lights of
               [] \<Rightarrow> ([Shade depth], Inl TypeError)
             | light0 # others \<Rightarrow>
                 let finalColor = times_color (Material.ambient m) (Light.ambient light0)
                 in if isRefractive m \<and> transparency m > 0 then
                      let fresnel = fresnelReflectivity m viewDir normal
                      in (case
                           (if fresnel > 0 then
                              let reflectDir = reflect (scale viewDir (- 1)) normal;
                                  reflectRayOrigin = add point (scale reflectDir 0.001);
                                  reflectRay =
                                    \<lparr> origin = reflectRayOrigin, direction = reflectDir \<rparr>
                              in (case findClosestIntersection reflectRay objects of
                                    NoHit \<Rightarrow> ([], Inr finalColor)
                                  | Hit t obj p \<Rightarrow>
                                      let reflectNormal = getNormal obj p;
                                          reflectViewDir =
                                            normalize (subtract (origin reflectRay) p)
                                      in (case calculatePhongLighting_traced (material_of obj)
                                                 lights reflectNormal reflectViewDir p objects
                                                 (Some obj) (depth + 1) of
                                            (evs, Inl e) \<Rightarrow> (evs, Inl e)
                                          | (evs, Inr reflectionColor) \<Rightarrow>
                                              (evs, Inr (plus_scaled finalColor reflectionColor
                                                           fresnel))))
                            else ([], Inr finalColor)) of
                           (evs1, Inl e) \<Rightarrow> (Shade depth # evs1, Inl e)
                         | (evs1, Inr finalColor1) \<Rightarrow>
                             let refractFactor = 1 - fresnel
                             in (case
                                  (if refractFactor > 0 then
                                     (case refract (scale viewDir (- 1)) normal (ior m) of
                                        Inl e \<Rightarrow> ([RefractCall m], Inl e)
                                      | Inr refractDir \<Rightarrow>
                                          let refractRayOrigin =
                                                add point (scale refractDir 0.001);
                                              refractRay =
                                                \<lparr> origin = refractRayOrigin,
                                                  direction = refractDir \<rparr>
                                          in (case findClosestIntersection refractRay objects of
                                                NoHit \<Rightarrow>
                                                  ([RefractCall m],
                                                   Inr (plus_scaled2 finalColor1 backgroundColor
                                                          (transparency m) refractFactor))
                                              | Hit t obj p \<Rightarrow>
                                                  let refractNormal = getNormal obj p;
                                                      refractViewDir =
                                                        normalize (subtract (origin refractRay) p)
                                                  in (case calculatePhongLighting_traced
                                                             (material_of obj) lights refractNormal
                                                             refractViewDir p objects (Some obj)
                                                             (depth + 1) of
                                                        (evs, Inl e) \<Rightarrow> (RefractCall m # evs, Inl e)
                                                      | (evs, Inr refractionColor) \<Rightarrow>
                                                          (RefractCall m # evs,
                                                           Inr (plus_scaled2 finalColor1
                                                                  refractionColor (transparency m)
                                                                  refractFactor)))))
                                   else ([], Inr finalColor1)) of
                                  (evs2, Inl e) \<Rightarrow> (Shade depth # evs1 @ evs2, Inl e)
                                | (evs2, Inr finalColor2) \<Rightarrow>
                                    (Shade depth # evs1 @ evs2,
                                     Inr (clamp_color
                                            (lights_refractive m normal viewDir point lights
                                               finalColor2)))))
                    else
                      (case lights_opaque m normal viewDir point objects currentObject lights
                              finalColor of
                         Inl e \<Rightarrow> ([Shade depth], Inl e)
                       | Inr finalColor1 \<Rightarrow>
                           (case
                             (if reflectivity m > 0 \<and> depth < MAX_DEPTH then
                                let reflectDir = reflect (scale viewDir (- 1)) normal;
                                    reflectRayOrigin = add point (scale reflectDir 0.001);
                                    reflectRay =
                                      \<lparr> origin = reflectRayOrigin, direction = reflectDir \<rparr>
                                in (case findClosestIntersection reflectRay objects of
                                      NoHit \<Rightarrow> ([], Inr finalColor1)
                                    | Hit t obj p \<Rightarrow>
                                        let reflectNormal = getNormal obj p;
                                            reflectViewDir =
                                              normalize (subtract (origin reflectRay) p)
                                        in (case calculatePhongLighting_traced (material_of obj)
                                                   lights reflectNormal reflectViewDir p objects
                                                   (Some obj) (depth + 1) of
                                              (evs, Inl e) \<Rightarrow> (evs, Inl e)
                                            | (evs, Inr reflectionColor) \<Rightarrow>
                                                (evs, Inr (plus_scaled finalColor1 reflectionColor
                                                             (reflectivity m)))))
                              else ([], Inr finalColor1)) of
                             (evs1, Inl e) \<Rightarrow> (Shade depth # evs1, Inl e)
                           | (evs1, Inr finalColor2) \<Rightarrow>
                               (Shade depth # evs1, Inr (clamp_color finalColor2))))))"
  by pat_completeness auto
termination
  by (relation "measure (\<lambda>(material, lights, normal, viewDir, point, objects, currentObject, depth).
                   Suc MAX_DEPTH - depth)")
     (simp_all (no_asm))

declare calculatePhongLighting_traced.simps [simp del]

section \<open>Predicates of the specification\<close>

text \<open>
  Colours with non-negative channels, colours with channels in \<open>[0, 1]\<close>, and the
  materials and lights "built from non-negative inputs": non-negative colour components,
  a positive shininess, reflectivity and transparency in \<open>[0, 1]\<close>.
\<close>

fun nonneg_color :: "color \<Rightarrow> bool" where
  "nonneg_color (RGB cr cg cb) = (0 \<le> cr \<and> 0 \<le> cg \<and> 0 \<le> cb)"

fun unit_color :: "color \<Rightarrow> bool" where
  "unit_color (RGB cr cg cb) =
     (0 \<le> cr \<and> cr \<le> 1 \<and> 0 \<le> cg \<and> cg \<le> 1 \<and> 0 \<le> cb \<and> cb \<le> 1)"

definition wf_material :: "Material \<Rightarrow> bool" where
  "wf_material m =
     (nonneg_color (Material.ambient m) \<and> nonneg_color (Material.diffuse m) \<and>
      nonneg_color (Material.specular m) \<and> 0 < shininess m \<and>
      0 \<le> reflectivity m \<and> reflectivity m \<le> 1 \<and>
      0 \<le> transparency m \<and> transparency m \<le> 1)"

definition wf_light :: "Light \<Rightarrow> bool" where
  "wf_light l =
     (nonneg_color (Light.ambient l) \<and> nonneg_color (Light.diffuse l) \<and>
      nonneg_color (Light.specular l))"

text \<open>
  \<open>returns_only P res\<close>: if \<open>res\<close> is a returned colour, it satisfies \<open>P\<close>; an exception
  satisfies it.
\<close>

definition returns_only :: "(color \<Rightarrow> bool) \<Rightarrow> error + color \<Rightarrow> bool" where
  "returns_only P res = (case res of Inl e \<Rightarrow> True | Inr c \<Rightarrow> P c)"

text \<open>A material that is present and does not enter the refractive branch.\<close>

definition opaque_material :: "Material option \<Rightarrow> bool" where
  "opaque_material mo =
     (case mo of None \<Rightarrow> False | Some m \<Rightarrow> \<not> (isRefractive m \<and> 0 < transparency m))"

text \<open>
  What every event of an invocation at depth \<open>d\<close> satisfies: shading happens at depths
  from \<open>d\<close> to \<open>MAX_DEPTH\<close>, and \<^verbatim>\<open>refract\<close> is called for refractive materials with a
  positive transparency only.
\<close>

fun event_ok :: "nat \<Rightarrow> event \<Rightarrow> bool" where
  "event_ok d (Shade k) = (d \<le> k \<and> k \<le> MAX_DEPTH)"
| "event_ok d (RefractCall m) = (isRefractive m \<and> 0 < transparency m)"

section \<open>Concrete scenes\<close>

text \<open>
  Inputs on which the theorems below are run. \<open>redMaterial\<close> and \<open>glassMaterial\<close> are the
  materials of these names in the scene of \<^verbatim>\<open>init\<close>, with the glass at the initial
  index 1.5 of the slider; \<open>frostedMaterial\<close> is transparent without being refractive.
  All objects are planes across the z axis, so that every square root is one of a square.
\<close>

definition redMaterial :: Material where
  "redMaterial =
     \<lparr> Material.ambient = RGB 0.1 0 0, Material.diffuse = RGB 0.7 0 0,
       Material.specular = RGB 0.3 0.3 0.3, shininess = 32, reflectivity = 0.4,
       transparency = 0, ior = 1, isRefractive = False \<rparr>"

definition glassMaterial :: Material where
  "glassMaterial =
     \<lparr> Material.ambient = RGB 0.1 0.1 0.1, Material.diffuse = RGB 0.1 0.1 0.1,
       Material.specular = RGB 0.9 0.9 0.9, shininess = 128, reflectivity = 0.2,
       transparency = 0.8, ior = 1.5, isRefractive = True \<rparr>"

definition frostedMaterial :: Material where
  "frostedMaterial =
     \<lparr> Material.ambient = RGB 0.1 0 0, Material.diffuse = RGB 0.7 0 0,
       Material.specular = RGB 0.3 0.3 0.3, shininess = 32, reflectivity = 0.4,
       transparency = 0.6, ior = 1, isRefractive = False \<rparr>"

definition lamp :: Light where
  "lamp =
     \<lparr> position = Vec3 0 0 1, Light.ambient = RGB 0.2 0.2 0.2,
       Light.diffuse = RGB 0.7 0.7 0.7, Light.specular = RGB 1 1 1 \<rparr>"

text \<open>Two reflective planes that face each other, the lamp between them.\<close>

definition mirrorFloor :: Primitive where
  "mirrorFloor = Plane 0 (Vec3 0 0 0) (Vec3 0 0 1) (Some redMaterial)"

definition mirrorCeiling :: Primitive where
  "mirrorCeiling = Plane 1 (Vec3 0 0 2) (Vec3 0 0 (- 1)) (Some redMaterial)"

text \<open>A pane of glass in front of an opaque wall, seen from the origin.\<close>

definition glassPane :: Primitive where
  "glassPane = Plane 2 (Vec3 0 0 2) (Vec3 0 0 1) (Some glassMaterial)"

definition redWall :: Primitive where
  "redWall = Plane 3 (Vec3 0 0 5) (Vec3 0 0 1) (Some redMaterial)"

definition frostedFloor :: Primitive where
  "frostedFloor = Plane 4 (Vec3 0 0 0) (Vec3 0 0 1) (Some frostedMaterial)"

definition floorPlane :: Primitive where
  "floorPlane = Plane 5 (Vec3 0 0 0) (Vec3 0 0 1) None"

definition farPlane :: Primitive where
  "farPlane = Plane 6 (Vec3 0 0 (- 3)) (Vec3 0 0 1) None"

definition downRay :: Ray where
  "downRay = \<lparr> origin = Vec3 0 0 1, direction = Vec3 0 0 (- 1) \<rparr>"

section \<open>Refraction\<close>

text \<open>
  What \<open>refract\<close> does on each side of the surface: a ray that leaves the medium
  (\<open>cosi < 0\<close>, that is \<open>dot incident normal > 0\<close>) raises the \<open>TypeError\<close>; for a ray
  that enters it, total internal reflection returns the reflected vector and equal
  indices return the incident vector.
\<close>

lemma refract_exiting_throws:
  "0 < dot incident normal \<Longrightarrow> refract incident normal i = Inl TypeError"
  by (simp add: refract_def Let_def)

lemma refract_entering_total_internal_reflection:
  assumes "dot incident normal \<le> 0"
    and "1 - (1 / i) * (1 / i) * (1 - (min (max (dot incident normal) (- 1)) 1)\<^sup>2) < 0"
  shows "refract incident normal i = Inr (reflect incident normal)"
  using assms by (simp add: refract_def Let_def power2_eq_square)

lemma refract_entering_same_index: "dot v n \<le> 0 \<Longrightarrow> refract v n 1 = Inr v"
  by (cases v; cases n) (auto simp: refract_def Let_def min_def max_def)

text \<open>
  C2. A ray that leaves the medium: the incident vector \<open>(0, 0, 1)\<close> along the normal
  \<open>(0, 0, 1)\<close> gives \<open>cosi = - 1 < 0\<close>. The claim has \<open>refract\<close> negate \<open>cosi\<close>, swap the
  indices, flip the normal and return the refracted vector; the source fails on the
  assignment \<^verbatim>\<open>cosi = -cosi\<close> to its \<^verbatim>\<open>const\<close> and returns nothing.
\<close>

theorem refract_exiting_ray_fails:
  "refract (Vec3 0 0 1) (Vec3 0 0 1) 1.5 = Inl TypeError"
  by (simp add: refract_def Let_def)

text \<open>
  C6. Total internal reflection inside glass of index 1.5: for the incident vector
  \<open>(0.8, 0, 0.6)\<close> and the normal \<open>(0, 0, 1)\<close> the swapped indices give \<open>eta = 1.5\<close> and
  \<open>k = 1 - 2.25 * (1 - 0.36) < 0\<close>, so the claim has \<open>refract\<close> return
  \<open>reflect incident normal\<close>. The ray leaves the medium, and the source raises the
  \<open>TypeError\<close> before it computes \<open>k\<close>.
\<close>

theorem refract_total_internal_reflection_fails:
  "refract (Vec3 0.8 0 0.6) (Vec3 0 0 1) 1.5 = Inl TypeError \<and>
   refract (Vec3 0.8 0 0.6) (Vec3 0 0 1) 1.5 \<noteq> Inr (reflect (Vec3 0.8 0 0.6) (Vec3 0 0 1))"
  by (simp add: refract_def Let_def)

text \<open>
  C9. Equal indices on both sides: for the unit normal \<open>n = (0, 0, 1)\<close> and \<open>v = n\<close> the
  claim has \<open>refract v n 1\<close> return \<open>v\<close>; the ray leaves the medium and the source
  raises the \<open>TypeError\<close>.
\<close>

theorem refract_same_index_fails:
  "dot (Vec3 0 0 1) (Vec3 0 0 1) = 1 \<and>
   refract (Vec3 0 0 1) (Vec3 0 0 1) 1 = Inl TypeError \<and>
   refract (Vec3 0 0 1) (Vec3 0 0 1) 1 \<noteq> Inr (Vec3 0 0 1)"
  by (simp add: refract_def Let_def)

section \<open>Closest intersection\<close>

lemma closer_than_trans: "a < b \<Longrightarrow> closer_than b c \<Longrightarrow> closer_than a c"
  by (cases c) auto

lemma not_closer_than: "\<not> closer_than b c \<Longrightarrow> closer_than a c \<Longrightarrow> a < b"
  by (cases c) auto

lemma loop_keeps_closest:
  "\<forall>ob \<in> set objs. \<not> (0.001 < intersect ray ob \<and> closer_than (intersect ray ob) closest) \<Longrightarrow>
   findClosestIntersection_loop ray objs closest = closest"
  by (induction objs arbitrary: closest) (auto simp: Let_def)

lemma loop_picks_minimum:
  "\<exists>ob \<in> set objs. 0.001 < intersect ray ob \<and> closer_than (intersect ray ob) closest \<Longrightarrow>
   \<exists>ob \<in> set objs.
      findClosestIntersection_loop ray objs closest =
        Hit (intersect ray ob) ob (getIntersectionPoint ray (intersect ray ob)) \<and>
      0.001 < intersect ray ob \<and> closer_than (intersect ray ob) closest \<and>
      (\<forall>ob' \<in> set objs. 0.001 < intersect ray ob' \<longrightarrow> intersect ray ob \<le> intersect ray ob')"
proof (induction objs arbitrary: closest)
  case Nil
  then show ?case by simp
next
  case (Cons a objs)
  let ?ta = "intersect ray a"
  let ?hit = "Hit ?ta a (getIntersectionPoint ray ?ta)"
  show ?case
  proof (cases "0.001 < ?ta \<and> closer_than ?ta closest")
    case accepted: True
    have step: "findClosestIntersection_loop ray (a # objs) closest =
                findClosestIntersection_loop ray objs ?hit"
      using accepted by (simp add: Let_def)
    show ?thesis
    proof (cases "\<exists>ob \<in> set objs. 0.001 < intersect ray ob \<and> closer_than (intersect ray ob) ?hit")
      case False
      then have "findClosestIntersection_loop ray objs ?hit = ?hit"
        by (intro loop_keeps_closest) simp
      moreover have "\<forall>ob' \<in> set objs. 0.001 < intersect ray ob' \<longrightarrow> ?ta \<le> intersect ray ob'"
        using False by auto
      ultimately show ?thesis using accepted step by auto
    next
      case True
      from Cons.IH[OF True] obtain ob where ob: "ob \<in> set objs"
        "findClosestIntersection_loop ray objs ?hit =
           Hit (intersect ray ob) ob (getIntersectionPoint ray (intersect ray ob))"
        "0.001 < intersect ray ob" "closer_than (intersect ray ob) ?hit"
        "\<forall>ob' \<in> set objs. 0.001 < intersect ray ob' \<longrightarrow> intersect ray ob \<le> intersect ray ob'"
        by blast
      from ob(4) have lt: "intersect ray ob < ?ta" by simp
      with accepted have "closer_than (intersect ray ob) closest"
        by (auto intro: closer_than_trans)
      with ob lt step show ?thesis by auto
    qed
  next
    case rejected: False
    then have step: "findClosestIntersection_loop ray (a # objs) closest =
                     findClosestIntersection_loop ray objs closest"
      by (auto simp: Let_def)
    from rejected Cons.prems
    have "\<exists>ob \<in> set objs. 0.001 < intersect ray ob \<and> closer_than (intersect ray ob) closest"
      by auto
    from Cons.IH[OF this] obtain ob where ob: "ob \<in> set objs"
        "findClosestIntersection_loop ray objs closest =
           Hit (intersect ray ob) ob (getIntersectionPoint ray (intersect ray ob))"
        "0.001 < intersect ray ob" "closer_than (intersect ray ob) closest"
        "\<forall>ob' \<in> set objs. 0.001 < intersect ray ob' \<longrightarrow> intersect ray ob \<le> intersect ray ob'"
      by blast
    have "0.001 < ?ta \<longrightarrow> intersect ray ob \<le> ?ta"
      using rejected ob(4) by (auto dest: not_closer_than)
    with ob step show ?thesis by auto
  qed
qed

text \<open>
  C5. \<open>findClosestIntersection\<close> accepts only distances above 0.001. When some object of
  the list has one, the result is the distance, the object and the point
  \<open>origin + t * direction\<close> of an object whose distance is the least of them; when none
  has, the result is the sentinel.
\<close>

theorem findClosestIntersection_closest:
  "(if \<exists>ob \<in> set objects. 0.001 < intersect ray ob
    then \<exists>ob \<in> set objects.
           findClosestIntersection ray objects =
             Hit (intersect ray ob) ob (add (origin ray) (scale (direction ray) (intersect ray ob))) \<and>
           0.001 < intersect ray ob \<and>
           (\<forall>ob' \<in> set objects. 0.001 < intersect ray ob' \<longrightarrow> intersect ray ob \<le> intersect ray ob')
    else findClosestIntersection ray objects = NoHit)"
proof (cases "\<exists>ob \<in> set objects. 0.001 < intersect ray ob")
  case True
  then have "\<exists>ob \<in> set objects. 0.001 < intersect ray ob \<and> closer_than (intersect ray ob) NoHit"
    by simp
  from loop_picks_minimum[OF this] True show ?thesis
    by (simp add: findClosestIntersection_def getIntersectionPoint_def)
next
  case False
  then have "\<forall>ob \<in> set objects. \<not> (0.001 < intersect ray ob \<and> closer_than (intersect ray ob) NoHit)"
    by simp
  from loop_keeps_closest[OF this] False show ?thesis
    by (simp add: findClosestIntersection_def)
qed

theorem findClosestIntersection_closest_witness:
  "findClosestIntersection downRay [farPlane, floorPlane] = Hit 1 floorPlane (Vec3 0 0 0) \<and>
   findClosestIntersection downRay [] = NoHit"
  using findClosestIntersection_closest[of "[farPlane, floorPlane]" downRay]
    findClosestIntersection_closest[of "[]" downRay]
  by (auto simp add: downRay_def floorPlane_def farPlane_def intersectRayPlane_def
        split: if_splits)

section \<open>Construction of scene entities\<close>

text \<open>
  C8 as the claim states it fails for the sphere: a negative radius is truthy, so the
  constructor accepts it.
\<close>

theorem new_Sphere_negative_radius:
  "new_Sphere 0 (Some (Vec3 0 0 0)) (Some (- 1)) None = Inr (Sphere 0 (Vec3 0 0 0) (- 1) None)"
  by (simp add: new_Sphere_def)

lemma new_Material_fails:
  "(new_Material amb dif spc shin options = Inl e) =
     ((amb = None \<or> dif = None \<or> spc = None) \<and>
      e = Error ''Material requires ambient, diffuse, and specular properties'')"
  by (auto simp: new_Material_def split: option.splits)

lemma new_Light_fails:
  "(new_Light pos amb dif spc = Inl e) = (pos = None \<and> e = Error ''Light requires position'')"
  by (auto simp: new_Light_def split: option.splits)

lemma new_Sphere_fails:
  "(new_Sphere i cen rad mat = Inl e) =
     ((cen = None \<or> rad = None \<or> rad = Some 0) \<and> e = Error ''Sphere requires center and radius'')"
  by (auto simp: new_Sphere_def split: option.splits)

lemma new_Plane_fails:
  "(new_Plane i pnt nrm mat = Inl e) =
     ((pnt = None \<or> nrm = None) \<and> e = Error ''Plane requires point and normal'')"
  by (auto simp: new_Plane_def split: option.splits)

text \<open>
  C8, amended. Each constructor fails exactly when one of its required arguments is
  missing, where a radius of 0 counts as missing and every other radius, negative ones
  included, is accepted; the failure carries the message of the entity, which lists its
  required fields.
\<close>

theorem construction_fails_on_missing_fields:
  "((new_Material amb dif spc shin options = Inl e1) =
      ((amb = None \<or> dif = None \<or> spc = None) \<and>
       e1 = Error ''Material requires ambient, diffuse, and specular properties'')) \<and>
   ((new_Light pos lamb ldif lspc = Inl e2) =
      (pos = None \<and> e2 = Error ''Light requires position'')) \<and>
   ((new_Sphere i cen rad mat = Inl e3) =
      ((cen = None \<or> rad = None \<or> rad = Some 0) \<and>
       e3 = Error ''Sphere requires center and radius'')) \<and>
   ((new_Plane j pnt nrm mat' = Inl e4) =
      ((pnt = None \<or> nrm = None) \<and> e4 = Error ''Plane requires point and normal''))"
  by (intro conjI new_Material_fails new_Light_fails new_Sphere_fails new_Plane_fails)

section \<open>The shadow test\<close>

lemma isInShadow_loop_stops:
  assumes "Some ob \<noteq> currentObject" "material_of ob = Some m"
    and "0.5 \<le> transparency m" "transparency m < 0.9"
    and "0.001 < intersect shadowRay ob" "intersect shadowRay ob < distanceToLight"
  shows "isInShadow_loop shadowRay distanceToLight currentObject (before @ ob # rest) =
         isInShadow_loop shadowRay distanceToLight currentObject before"
proof (induction before)
  case Nil
  from assms show ?case by (simp add: Let_def)
next
  case (Cons a before)
  then show ?case by (auto simp add: Let_def split: option.splits)
qed

text \<open>
  C1 as the claim states it fails. Seen from the origin towards a light at \<open>(0, 0, 10)\<close>,
  the pane of glass (transparency 0.8, hit at distance 1.999) stands in front of the
  opaque wall. Were the pane skipped and the scan deferred to the wall, the result would
  be that of the wall alone, "in shadow"; the source returns "not in shadow" at the pane.
\<close>

theorem isInShadow_partial_occluder_counterexample:
  "material_of glassPane = Some glassMaterial \<and> transparency glassMaterial = 0.8 \<and>
   intersect \<lparr> origin = Vec3 0 0 0.001, direction = Vec3 0 0 1 \<rparr> glassPane = 1.999 \<and>
   isInShadow (Vec3 0 0 0) (Vec3 0 0 10) [redWall] None = Inr True \<and>
   isInShadow (Vec3 0 0 0) (Vec3 0 0 10) [glassPane, redWall] None = Inr False \<and>
   isInShadow (Vec3 0 0 0) (Vec3 0 0 10) [glassPane, redWall] None \<noteq>
     isInShadow (Vec3 0 0 0) (Vec3 0 0 10) [redWall] None"
  by (simp add: isInShadow_def Let_def glassPane_def redWall_def glassMaterial_def
        redMaterial_def intersectRayPlane_def)

text \<open>
  C1, amended. An occluder other than the current object, with transparency in
  \<open>[0.5, 0.9)\<close> and its hit strictly between the shaded point and the light, ends the
  scan with the answer "not in shadow": the objects after it are not examined, and the
  result of \<open>isInShadow\<close> is the one the objects before it give.
\<close>

theorem isInShadow_partial_occluder_decides:
  assumes "lightDir = normalize (subtract lightPos point)"
    and "shadowRay = \<lparr> origin = add point (scale lightDir 0.001), direction = lightDir \<rparr>"
    and "Some ob \<noteq> currentObject" "material_of ob = Some m"
    and "0.5 \<le> transparency m" "transparency m < 0.9"
    and "0.001 < intersect shadowRay ob"
    and "intersect shadowRay ob < length_vec (subtract lightPos point)"
  shows "isInShadow point lightPos (ob # rest) currentObject = Inr False \<and>
         isInShadow point lightPos (before @ ob # rest) currentObject =
           isInShadow point lightPos before currentObject"
  using assms
    isInShadow_loop_stops[of ob currentObject m shadowRay
      "length_vec (subtract lightPos point)" "[]" rest]
    isInShadow_loop_stops[of ob currentObject m shadowRay
      "length_vec (subtract lightPos point)" before rest]
  by (simp add: isInShadow_def Let_def)

theorem isInShadow_partial_occluder_decides_witness:
  "isInShadow (Vec3 0 0 0) (Vec3 0 0 10) [glassPane, redWall] None = Inr False \<and>
   isInShadow (Vec3 0 0 0) (Vec3 0 0 10) [redWall, glassPane, redWall] None =
     isInShadow (Vec3 0 0 0) (Vec3 0 0 10) [redWall] None"
  using isInShadow_partial_occluder_decides[of "Vec3 0 0 1" "Vec3 0 0 10" "Vec3 0 0 0"
      "\<lparr> origin = Vec3 0 0 0.001, direction = Vec3 0 0 1 \<rparr>" glassPane None glassMaterial
      "[redWall]" "[redWall]"]
  by (simp add: Let_def glassPane_def glassMaterial_def intersectRayPlane_def)

section \<open>The Fresnel weight\<close>

lemma cauchy_schwarz: "(dot a b)\<^sup>2 \<le> dot a a * dot b b"
proof (cases a; cases b)
  fix a0 a1 a2 b0 b1 b2
  assume a: "a = Vec3 a0 a1 a2" and b: "b = Vec3 b0 b1 b2"
  have "dot a a * dot b b - (dot a b)\<^sup>2 =
        (a0 * b1 - a1 * b0)\<^sup>2 + (a0 * b2 - a2 * b0)\<^sup>2 + (a1 * b2 - a2 * b1)\<^sup>2"
    by (simp add: a b power2_eq_square algebra_simps)
  moreover
  have "0 \<le> (a0 * b1 - a1 * b0)\<^sup>2 + (a0 * b2 - a2 * b0)\<^sup>2 + (a1 * b2 - a2 * b1)\<^sup>2"
    by simp
  ultimately show ?thesis by linarith
qed

lemma length_vec_dot: "length_vec v = sqrt (dot v v)"
  by (cases v) simp

lemma unit_dot_bound:
  assumes "length_vec a = 1" "length_vec b = 1"
  shows "\<bar>dot a b\<bar> \<le> 1"
proof -
  from assms have "dot a a = 1" "dot b b = 1"
    by (simp_all add: length_vec_dot)
  with cauchy_schwarz[of a b] have "(dot a b)\<^sup>2 \<le> 1" by simp
  then show ?thesis by (simp add: abs_le_square_iff[of _ 1, simplified])
qed

lemma Math_pow_5: "0 \<le> b \<Longrightarrow> Math_pow b 5 = b ^ 5"
  by (auto simp: Math_pow_def)

lemma Math_pow_nonneg: "0 \<le> b \<Longrightarrow> 0 \<le> Math_pow b e"
  by (auto simp: Math_pow_def)

text \<open>
  C10. For a reflectivity in \<open>[0, 1]\<close> and unit vectors \<open>viewDir\<close> and \<open>normal\<close>, the
  Fresnel reflectivity lies in \<open>[0, 1]\<close>, the refraction weight \<open>1 - fresnel\<close> is not
  negative, and the two weights add up to 1.
\<close>

theorem fresnel_bounds:
  assumes "0 \<le> reflectivity m" "reflectivity m \<le> 1"
    and "length_vec viewDir = 1" "length_vec normal = 1"
  shows "0 \<le> fresnelReflectivity m viewDir normal \<and>
         fresnelReflectivity m viewDir normal \<le> 1 \<and>
         0 \<le> 1 - fresnelReflectivity m viewDir normal \<and>
         fresnelReflectivity m viewDir normal + (1 - fresnelReflectivity m viewDir normal) = 1"
proof -
  let ?x = "1 - \<bar>dot viewDir normal\<bar>"
  from unit_dot_bound[OF assms(3,4)] have x: "0 \<le> ?x" "?x \<le> 1" by simp_all
  then have p: "0 \<le> ?x ^ 5" "?x ^ 5 \<le> 1"
    by (simp_all add: power_le_one)
  have f: "fresnelReflectivity m viewDir normal = reflectivity m + (1 - reflectivity m) * ?x ^ 5"
    using x by (simp add: fresnelReflectivity_def Math_pow_5)
  have "0 \<le> (1 - reflectivity m) * ?x ^ 5" using assms p by simp
  moreover have "(1 - reflectivity m) * ?x ^ 5 \<le> (1 - reflectivity m) * 1"
    using assms p by (intro mult_left_mono) simp_all
  ultimately show ?thesis using assms unfolding f by simp
qed

theorem fresnel_bounds_witness:
  "reflectivity glassMaterial = 0.2 \<and> length_vec (Vec3 0 0 1) = 1 \<and>
   fresnelReflectivity glassMaterial (Vec3 0 0 1) (Vec3 0 0 1) = 0.2 \<and>
   (0::real) \<le> 0.2 \<and> (0.2::real) \<le> 1 \<and> 0 \<le> 1 - (0.2::real)"
  using fresnel_bounds[of glassMaterial "Vec3 0 0 1" "Vec3 0 0 1"]
  by (simp add: glassMaterial_def fresnelReflectivity_def Math_pow_def)

section \<open>Properties of the shading engine\<close>

subsection \<open>The record of calls does not change the result\<close>

lemma traced_result:
  "snd (calculatePhongLighting_traced material lights normal viewDir point objects currentObject
          depth) =
   calculatePhongLighting material lights normal viewDir point objects currentObject depth"
proof (induction "Suc MAX_DEPTH - depth"
    arbitrary: material lights normal viewDir point objects currentObject depth
    rule: less_induct)
  case less
  show ?case
  proof (cases "MAX_DEPTH < depth")
    case True
    then show ?thesis
      by (subst calculatePhongLighting_traced.simps, subst calculatePhongLighting.simps)
         (simp split: option.splits)
  next
    case False
    then have "Suc MAX_DEPTH - (depth + 1) < Suc MAX_DEPTH - depth" by simp
    from less[OF this]
    have rec: "\<And>mat ls n v p obs cur.
        snd (calculatePhongLighting_traced mat ls n v p obs cur (depth + 1)) =
        calculatePhongLighting mat ls n v p obs cur (depth + 1)" .
    show ?thesis
      apply (subst calculatePhongLighting_traced.simps)
      apply (subst calculatePhongLighting.simps)
      apply (simp only: Let_def split_beta rec snd_conv fst_conv
          option.case_distrib[of snd] if_distrib[of snd] list.case_distrib[of snd]
          sum.case_distrib[of snd] Intersection.case_distrib[of snd]
          cong: if_cong option.case_cong sum.case_cong list.case_cong Intersection.case_cong)
      done
  qed
qed

subsection \<open>Events\<close>

lemma event_ok_mono: "event_ok (Suc d) ev \<Longrightarrow> event_ok d ev"
  by (cases ev) simp_all

lemma case_collapse:
  "(case xo of None \<Rightarrow> True | Some y \<Rightarrow> True) = True"
  "(case xl of [] \<Rightarrow> True | y # ys \<Rightarrow> True) = True"
  "(case xs of Inl e \<Rightarrow> True | Inr c \<Rightarrow> True) = True"
  "(case xi of NoHit \<Rightarrow> True | Hit t ob p \<Rightarrow> True) = True"
  by (simp_all split: option.splits list.splits sum.splits Intersection.splits)

lemma traced_events_ok:
  "list_all (event_ok depth)
     (fst (calculatePhongLighting_traced material lights normal viewDir point objects
             currentObject depth))"
proof (induction "Suc MAX_DEPTH - depth"
    arbitrary: material lights normal viewDir point objects currentObject depth
    rule: less_induct)
  case less
  show ?case
  proof (cases "MAX_DEPTH < depth")
    case True
    then show ?thesis
      by (subst calculatePhongLighting_traced.simps) (simp split: option.splits)
  next
    case False
    then have "Suc MAX_DEPTH - (depth + 1) < Suc MAX_DEPTH - depth" by simp
    from less[OF this]
    have rec: "\<And>mat ls n v p obs cur.
        list_all (event_ok depth)
          (fst (calculatePhongLighting_traced mat ls n v p obs cur (depth + 1))) = True"
      by (auto simp: list_all_iff intro: event_ok_mono)
    from False have here: "event_ok depth (Shade depth) = True" by simp
    show ?thesis
      apply (subst calculatePhongLighting_traced.simps)
      apply (simp only: Let_def split_beta fst_conv snd_conv
          option.case_distrib[of fst] if_distrib[of fst] list.case_distrib[of fst]
          sum.case_distrib[of fst] Intersection.case_distrib[of fst]
          cong: if_cong option.case_cong sum.case_cong list.case_cong Intersection.case_cong)
      apply (simp only:
          option.case_distrib[of "list_all (event_ok depth)"]
          if_distrib[of "list_all (event_ok depth)"]
          list.case_distrib[of "list_all (event_ok depth)"]
          sum.case_distrib[of "list_all (event_ok depth)"]
          Intersection.case_distrib[of "list_all (event_ok depth)"]
          list.pred_inject list_all_append
          cong: if_cong option.case_cong sum.case_cong list.case_cong Intersection.case_cong)
      apply (simp only: rec here event_ok.simps(2) simp_thms if_cancel case_collapse
          cong: if_cong option.case_cong sum.case_cong list.case_cong Intersection.case_cong)
      done
  qed
qed

lemma beyond_cutoff:
  "MAX_DEPTH < depth \<Longrightarrow>
   calculatePhongLighting_traced (Some m) lights normal viewDir point objects currentObject depth =
     ([], Inr (RGB 0 0 0))"
  by (subst calculatePhongLighting_traced.simps) simp

subsection \<open>Evaluation on the concrete scenes\<close>

lemma normalize_z: "c \<noteq> 0 \<Longrightarrow> normalize (Vec3 0 0 c) = Vec3 0 0 (sgn c)"
  by (simp add: Let_def sgn_real_def divide_simps)

lemma length_vec_z: "length_vec (Vec3 0 0 c) = \<bar>c\<bar>"
  by simp

lemmas scene_simps =
  MAX_DEPTH_def redMaterial_def glassMaterial_def frostedMaterial_def lamp_def
  mirrorFloor_def mirrorCeiling_def frostedFloor_def
  findClosestIntersection_def Let_def intersectRayPlane_def getIntersectionPoint_def
  isInShadow_def reflect_def refract_def calculateDiffuse_def calculateSpecular_def
  Math_pow_def fresnelReflectivity_def backgroundColor_def normalize_z length_vec_z

lemma mirrors_traced:
  "calculatePhongLighting_traced (Some redMaterial) [lamp] (Vec3 0 0 1) (Vec3 0 0 1) (Vec3 0 0 0)
     [mirrorFloor, mirrorCeiling] (Some mirrorFloor) 0 =
   ([Shade 0, Shade 1, Shade 2, Shade 3, Shade 4, Shade 5], Inr (RGB 1 0.497952 0.497952))"
  by (simp add: calculatePhongLighting_traced.simps scene_simps
        del: normalize.simps length_vec.simps)

lemma glass_traced:
  "calculatePhongLighting_traced (Some glassMaterial) [lamp] (Vec3 0 0 1) (Vec3 0 0 1)
     (Vec3 0 0 (1 / 2)) [frostedFloor] None 0 =
   ([Shade 0, RefractCall glassMaterial, Shade 1], Inr (RGB 0.9884 0.662 0.662))"
  by (simp add: calculatePhongLighting_traced.simps scene_simps
        del: normalize.simps length_vec.simps)

subsection \<open>The depth cutoff\<close>

text \<open>
  The recursive calls of \<open>calculatePhongLighting\<close>, read off the call relation of its
  definition: each is made at a depth of at most 5 and passes \<open>depth + 1\<close>, with the same
  lights and objects.
\<close>

lemma recursive_calls_increment_depth:
  "calculatePhongLighting_rel (mat', ls', n', v', p', obs', cur', d')
     (mat, ls, n, v, p, obs, cur, d) \<Longrightarrow>
   d' = d + 1 \<and> d \<le> 5 \<and> ls' = ls \<and> obs' = obs"
  by (erule calculatePhongLighting_rel.cases) (simp_all add: MAX_DEPTH_def)

text \<open>
  C3. Beyond depth 5 an invocation (with its material present: the guard on missing
  arguments comes first) returns black at once, without shading and without a further
  call. Both functions are total, by their termination proofs on the measure
  \<open>6 - depth\<close>, for every scene. In the record of an invocation at depth \<open>depth\<close> every
  shading happens at a depth from \<open>depth\<close> to 5: started at depth 0, that is on at most
  the 6 levels 0 to 5. The scene of the witness is a pair of reflective planes that face
  each other.
\<close>

theorem calculatePhongLighting_depth_bounded:
  "(5 < depth \<longrightarrow>
      calculatePhongLighting (Some m) lights normal viewDir point objects currentObject depth =
        Inr (RGB 0 0 0) \<and>
      fst (calculatePhongLighting_traced (Some m) lights normal viewDir point objects
             currentObject depth) = []) \<and>
   (Shade d \<in> set (fst (calculatePhongLighting_traced material lights normal viewDir point
                          objects currentObject depth)) \<longrightarrow>
      depth \<le> d \<and> d \<le> 5)"
proof (intro conjI impI)
  assume "5 < depth"
  then have deep: "MAX_DEPTH < depth" by (simp add: MAX_DEPTH_def)
  from beyond_cutoff[OF deep]
  show "fst (calculatePhongLighting_traced (Some m) lights normal viewDir point objects
               currentObject depth) = []"
    by simp
  from beyond_cutoff[OF deep, of m lights normal viewDir point objects currentObject]
  show "calculatePhongLighting (Some m) lights normal viewDir point objects currentObject depth =
          Inr (RGB 0 0 0)"
    by (simp flip: traced_result)
next
  assume "Shade d \<in> set (fst (calculatePhongLighting_traced material lights normal viewDir point
                                 objects currentObject depth))"
  with traced_events_ok[of depth material lights normal viewDir point objects currentObject]
  have "event_ok depth (Shade d)" by (auto simp: list_all_iff)
  then show "depth \<le> d" "d \<le> 5" by (simp_all add: MAX_DEPTH_def)
qed

theorem calculatePhongLighting_depth_bounded_witness:
  "calculatePhongLighting (Some redMaterial) [lamp] (Vec3 0 0 1) (Vec3 0 0 1) (Vec3 0 0 0)
     [mirrorFloor, mirrorCeiling] (Some mirrorFloor) 6 = Inr (RGB 0 0 0) \<and>
   Shade 5 \<in> set (fst (calculatePhongLighting_traced (Some redMaterial) [lamp] (Vec3 0 0 1)
                          (Vec3 0 0 1) (Vec3 0 0 0) [mirrorFloor, mirrorCeiling]
                          (Some mirrorFloor) 0)) \<and>
   (0::nat) \<le> 5 \<and> (5::nat) \<le> 5"
  using calculatePhongLighting_depth_bounded[of 6 redMaterial "[lamp]" "Vec3 0 0 1" "Vec3 0 0 1"
      "Vec3 0 0 0" "[mirrorFloor, mirrorCeiling]" "Some mirrorFloor"]
    calculatePhongLighting_depth_bounded[of 0 redMaterial "[lamp]" "Vec3 0 0 1" "Vec3 0 0 1"
      "Vec3 0 0 0" "[mirrorFloor, mirrorCeiling]" "Some mirrorFloor" 5 "Some redMaterial"]
  by (simp add: mirrors_traced)

text \<open>
  C7. An invocation calls \<^verbatim>\<open>refract\<close> only on a material that is refractive and has a
  positive transparency: for a material that is not refractive, whatever its
  transparency, no call of \<^verbatim>\<open>refract\<close> is recorded, at any depth of any invocation.
\<close>

theorem no_refraction_without_isRefractive:
  assumes "\<not> (isRefractive m \<and> 0 < transparency m)"
  shows "RefractCall m \<notin> set (fst (calculatePhongLighting_traced material lights normal viewDir
                                      point objects currentObject depth))"
proof
  assume "RefractCall m \<in> set (fst (calculatePhongLighting_traced material lights normal viewDir
                                       point objects currentObject depth))"
  with traced_events_ok[of depth material lights normal viewDir point objects currentObject]
  have "event_ok depth (RefractCall m)" by (auto simp: list_all_iff)
  with assms show False by simp
qed

theorem no_refraction_without_isRefractive_witness:
  "\<not> isRefractive frostedMaterial \<and> transparency frostedMaterial = 0.6 \<and>
   fst (calculatePhongLighting_traced (Some glassMaterial) [lamp] (Vec3 0 0 1) (Vec3 0 0 1)
          (Vec3 0 0 (1 / 2)) [frostedFloor] None 0) =
     [Shade 0, RefractCall glassMaterial, Shade 1] \<and>
   RefractCall frostedMaterial \<notin>
     set (fst (calculatePhongLighting_traced (Some glassMaterial) [lamp] (Vec3 0 0 1)
                 (Vec3 0 0 1) (Vec3 0 0 (1 / 2)) [frostedFloor] None 0))"
  using no_refraction_without_isRefractive[of frostedMaterial "Some glassMaterial" "[lamp]"
      "Vec3 0 0 1" "Vec3 0 0 1" "Vec3 0 0 (1 / 2)" "[frostedFloor]" None 0]
  by (simp add: glass_traced) (simp add: frostedMaterial_def)

subsection \<open>Channels stay in the unit interval\<close>

lemma unit_color_nonneg: "unit_color c \<Longrightarrow> nonneg_color c"
  by (cases c) simp

lemma clamp_color_unit: "nonneg_color c \<Longrightarrow> unit_color (clamp_color c)"
  by (cases c) simp

lemma nonneg_times_color:
  "nonneg_color a \<Longrightarrow> nonneg_color b \<Longrightarrow> nonneg_color (times_color a b)"
  by (cases a; cases b) simp

lemma nonneg_modulate:
  "nonneg_color a \<Longrightarrow> nonneg_color b \<Longrightarrow> 0 \<le> k \<Longrightarrow> nonneg_color (modulate a b k)"
  by (cases a; cases b) simp

lemma nonneg_plus_color:
  "nonneg_color a \<Longrightarrow> nonneg_color b \<Longrightarrow> nonneg_color (plus_color a b)"
  by (cases a; cases b) simp

lemma nonneg_plus_scaled:
  "nonneg_color a \<Longrightarrow> nonneg_color b \<Longrightarrow> 0 \<le> k \<Longrightarrow> nonneg_color (plus_scaled a b k)"
  by (cases a; cases b) simp

lemma nonneg_plus_scaled2:
  "nonneg_color a \<Longrightarrow> nonneg_color b \<Longrightarrow> 0 \<le> k \<Longrightarrow> 0 \<le> l \<Longrightarrow>
   nonneg_color (plus_scaled2 a b k l)"
  by (cases a; cases b) simp

lemma nonneg_backgroundColor: "nonneg_color backgroundColor"
  by (simp add: backgroundColor_def)

lemma nonneg_calculateDiffuse:
  "wf_material m \<Longrightarrow> wf_light l \<Longrightarrow> nonneg_color (calculateDiffuse m l n ld)"
  by (simp add: calculateDiffuse_def wf_material_def wf_light_def nonneg_modulate)

lemma nonneg_calculateSpecular:
  "wf_material m \<Longrightarrow> wf_light l \<Longrightarrow> nonneg_color (calculateSpecular m l n ld v)"
  by (simp add: calculateSpecular_def wf_material_def wf_light_def nonneg_modulate
        Math_pow_nonneg)

lemma nonneg_lights_refractive:
  "wf_material m \<Longrightarrow> \<forall>l \<in> set ls. wf_light l \<Longrightarrow> nonneg_color fc \<Longrightarrow>
   nonneg_color (lights_refractive m n v p ls fc)"
  by (induction ls arbitrary: fc)
     (simp_all add: Let_def nonneg_plus_scaled nonneg_calculateSpecular)

lemma nonneg_lights_opaque:
  "wf_material m \<Longrightarrow> \<forall>l \<in> set ls. wf_light l \<Longrightarrow> nonneg_color fc \<Longrightarrow>
   lights_opaque m n v p obs cur ls fc = Inr c \<Longrightarrow> nonneg_color c"
proof (induction ls arbitrary: fc)
  case Nil
  then show ?case by simp
next
  case (Cons l ls)
  from Cons.prems
  have "nonneg_color (plus_color fc
          (plus_color (calculateDiffuse m l n (normalize (subtract (position l) p)))
                      (calculateSpecular m l n (normalize (subtract (position l) p)) v)))"
    by (simp add: nonneg_plus_color nonneg_calculateDiffuse nonneg_calculateSpecular)
  with Cons show ?case
    by (auto simp: Let_def split: sum.splits if_splits)
qed

lemma loop_hit_member:
  "findClosestIntersection_loop ray obs closest = Hit t ob p \<Longrightarrow>
   ob \<in> set obs \<or> closest = Hit t ob p"
  by (induction obs arbitrary: closest) (auto simp: Let_def split: if_splits)

lemma findClosestIntersection_member:
  "findClosestIntersection ray obs = Hit t ob p \<Longrightarrow> ob \<in> set obs"
  by (auto simp: findClosestIntersection_def dest: loop_hit_member)

lemma returns_Inr: "P c \<Longrightarrow> returns_only P (Inr c)"
  by (simp add: returns_only_def)

lemma returns_if:
  "(b \<Longrightarrow> returns_only P x) \<Longrightarrow> (\<not> b \<Longrightarrow> returns_only P y) \<Longrightarrow>
   returns_only P (if b then x else y)"
  by simp

lemma returns_bind:
  assumes "returns_only P res" and "\<And>c. P c \<Longrightarrow> returns_only Q (f c)"
  shows "returns_only Q (case res of Inl e \<Rightarrow> Inl e | Inr c \<Rightarrow> f c)"
  using assms by (cases res) (simp_all add: returns_only_def)

lemma returns_bind_vec:
  assumes "\<And>d. returns_only Q (f d)"
  shows "returns_only Q (case res of Inl e \<Rightarrow> Inl e | Inr (d :: vec3) \<Rightarrow> f d)"
  using assms by (cases res) (simp_all add: returns_only_def)

lemma returns_secondary:
  assumes "\<And>t ob p. hit = Hit t ob p \<Longrightarrow> returns_only unit_color (shade t ob p)"
    and "returns_only P miss"
    and "\<And>c. unit_color c \<Longrightarrow> P (blend c)"
  shows "returns_only P
           (case hit of
              NoHit \<Rightarrow> miss
            | Hit t ob p \<Rightarrow>
                (case shade t ob p of Inl e \<Rightarrow> Inl e | Inr c \<Rightarrow> Inr (blend c)))"
proof (cases hit)
  case NoHit
  with assms(2) show ?thesis by simp
next
  case (Hit t ob p)
  from assms(1)[OF Hit] assms(3) show ?thesis
    by (cases "shade t ob p") (simp_all add: Hit returns_only_def)
qed

lemma returns_lights_opaque:
  "wf_material m \<Longrightarrow> \<forall>l \<in> set ls. wf_light l \<Longrightarrow> nonneg_color fc \<Longrightarrow>
   returns_only nonneg_color (lights_opaque m n v p obs cur ls fc)"
  using nonneg_lights_opaque[of m ls fc n v p obs cur]
  by (cases "lights_opaque m n v p obs cur ls fc") (simp_all add: returns_only_def)

lemma shading_returns_unit:
  assumes "\<forall>l \<in> set lights. wf_light l"
    and "\<forall>ob \<in> set objects. \<forall>m. material_of ob = Some m \<longrightarrow> wf_material m"
  shows "\<forall>m. material = Some m \<longrightarrow> wf_material m \<Longrightarrow>
   returns_only unit_color
     (calculatePhongLighting material lights normal viewDir point objects currentObject depth)"
proof (induction "Suc MAX_DEPTH - depth"
    arbitrary: material normal viewDir point currentObject depth rule: less_induct)
  case less
  show ?case
  proof (cases material)
    case None
    then show ?thesis
      by (subst calculatePhongLighting.simps) (simp add: returns_only_def)
  next
    case (Some m)
    with less.prems have wf: "wf_material m" by simp
    show ?thesis
    proof (cases "MAX_DEPTH < depth")
      case True
      with Some show ?thesis
        by (subst calculatePhongLighting.simps) (simp add: returns_only_def)
    next
      case False
      then have "Suc MAX_DEPTH - (depth + 1) < Suc MAX_DEPTH - depth" by simp
      from less.hyps[OF this]
      have rec: "returns_only unit_color
          (calculatePhongLighting (material_of ob) lights n v p objects cur (depth + 1))"
        if "findClosestIntersection ray objects = Hit t ob p" for ray t ob p n v cur
        using assms(2) findClosestIntersection_member[OF that] by blast
      show ?thesis
      proof (cases lights)
        case Nil
        with Some False show ?thesis
          by (subst calculatePhongLighting.simps) (simp add: returns_only_def)
      next
        case (Cons l0 ls)
        have l0: "wf_light l0" using assms(1) Cons by simp
        have amb: "nonneg_color (times_color (Material.ambient m) (Light.ambient l0))"
          using wf l0 by (simp add: wf_material_def wf_light_def nonneg_times_color)
        have ls: "\<forall>l \<in> set (l0 # ls). wf_light l" using assms(1) Cons by simp
        have notdeep: "(MAX_DEPTH < depth) = False" using False by simp
        have T: "0 \<le> transparency m" using wf by (simp add: wf_material_def)
        show ?thesis
          apply (subst calculatePhongLighting.simps)
          apply (simp only: Some Cons option.case list.case notdeep if_False Let_def)
          apply (rule returns_if)
           apply (rule returns_bind[where P = nonneg_color])
            apply (rule returns_if)
             apply (rule returns_secondary)
               apply (rule rec[unfolded Cons], assumption)
              apply (rule returns_Inr, rule amb)
          subgoal by (rule nonneg_plus_scaled[OF amb]) (simp_all add: unit_color_nonneg)
            apply (rule returns_Inr, rule amb)
           apply (rule returns_bind[where P = nonneg_color])
            apply (rule returns_if)
             apply (rule returns_bind_vec)
             apply (rule returns_secondary)
               apply (rule rec[unfolded Cons], assumption)
          subgoal by (rule returns_Inr, rule nonneg_plus_scaled2)
              (simp_all add: nonneg_backgroundColor T)
          subgoal by (rule nonneg_plus_scaled2) (simp_all add: unit_color_nonneg T)
            apply (rule returns_Inr, assumption)
          subgoal by (rule returns_Inr, rule clamp_color_unit,
                      rule nonneg_lights_refractive[OF wf ls])
          apply (rule returns_bind[where P = nonneg_color])
          subgoal by (rule returns_lights_opaque[OF wf ls amb])
          apply (rule returns_bind[where P = nonneg_color])
           apply (rule returns_if)
            apply (rule returns_secondary)
              apply (rule rec[unfolded Cons], assumption)
             apply (rule returns_Inr, assumption)
          subgoal by (rule nonneg_plus_scaled) (simp_all add: unit_color_nonneg)
           apply (rule returns_Inr, assumption)
          apply (rule returns_Inr, erule clamp_color_unit)
          done
      qed
    qed
  qed
qed

text \<open>
  C4. For a material, lights and scene materials with non-negative components (positive
  shininess, reflectivity and transparency in \<open>[0, 1]\<close>), every channel of a colour that
  \<open>calculatePhongLighting\<close> returns lies in \<open>[0, 1]\<close>. Neither unit vectors nor a
  non-empty list of lights are needed for that: an empty list of lights, like an object
  without material or a refraction that raises the \<open>TypeError\<close>, returns no colour.
\<close>

theorem calculatePhongLighting_channels_in_unit_interval:
  assumes "wf_material m"
    and "\<forall>l \<in> set lights. wf_light l"
    and "\<forall>ob \<in> set objects. \<forall>m'. material_of ob = Some m' \<longrightarrow> wf_material m'"
    and "calculatePhongLighting (Some m) lights normal viewDir point objects currentObject depth =
           Inr c"
  shows "unit_color c"
  using shading_returns_unit[OF assms(2,3), of "Some m" normal viewDir point currentObject depth]
    assms(1,4)
  by (simp add: returns_only_def)

theorem calculatePhongLighting_channels_in_unit_interval_witness:
  "wf_material redMaterial \<and> wf_light lamp \<and>
   calculatePhongLighting (Some redMaterial) [lamp] (Vec3 0 0 1) (Vec3 0 0 1) (Vec3 0 0 0)
     [mirrorFloor, mirrorCeiling] (Some mirrorFloor) 0 = Inr (RGB 1 0.497952 0.497952) \<and>
   unit_color (RGB 1 0.497952 0.497952)"
proof -
  have m: "wf_material redMaterial"
    by (simp add: wf_material_def redMaterial_def)
  have l: "\<forall>l \<in> set [lamp]. wf_light l"
    by (simp add: wf_light_def lamp_def)
  have s: "\<forall>ob \<in> set [mirrorFloor, mirrorCeiling]. \<forall>m'. material_of ob = Some m' \<longrightarrow>
             wf_material m'"
    using m by (simp add: mirrorFloor_def mirrorCeiling_def)
  have r: "calculatePhongLighting (Some redMaterial) [lamp] (Vec3 0 0 1) (Vec3 0 0 1) (Vec3 0 0 0)
     [mirrorFloor, mirrorCeiling] (Some mirrorFloor) 0 = Inr (RGB 1 0.497952 0.497952)"
    using mirrors_traced traced_result[of "Some redMaterial" "[lamp]" "Vec3 0 0 1" "Vec3 0 0 1"
        "Vec3 0 0 0" "[mirrorFloor, mirrorCeiling]" "Some mirrorFloor" 0]
    by simp
  from calculatePhongLighting_channels_in_unit_interval[OF m l s r] m l r
  show ?thesis by simp
qed

subsection \<open>Scenes without refraction return a colour\<close>

text \<open>
  The exceptions of the engine come from a missing material, an empty list of lights and
  \<open>refract\<close>. With at least one light, and every material present and outside the
  refractive branch, \<open>calculatePhongLighting\<close> returns a colour.
\<close>

lemma isInShadow_loop_returns:
  "\<forall>ob \<in> set obs. material_of ob \<noteq> None \<Longrightarrow> \<exists>b. isInShadow_loop ray d cur obs = Inr b"
  by (induction obs) (auto simp: Let_def)

lemma lights_opaque_returns:
  "\<forall>ob \<in> set obs. material_of ob \<noteq> None \<Longrightarrow> \<exists>c. lights_opaque m n v p obs cur ls fc = Inr c"
proof (induction ls arbitrary: fc)
  case Nil
  then show ?case by simp
next
  case (Cons l ls)
  from isInShadow_loop_returns[OF Cons.prems]
  obtain b where "isInShadow p (position l) obs cur = Inr b"
    unfolding isInShadow_def Let_def by blast
  with Cons show ?case by (simp add: Let_def)
qed

lemma bind_returns:
  "\<exists>c. res = Inr c \<Longrightarrow>
   \<exists>c'. (case res of Inl e \<Rightarrow> Inl e | Inr c \<Rightarrow> Inr (f c)) = Inr c'"
  by auto

lemma if_returns:
  "(b \<Longrightarrow> \<exists>c. x = Inr c) \<Longrightarrow> (\<not> b \<Longrightarrow> \<exists>c. y = Inr c) \<Longrightarrow>
   \<exists>c. (if b then x else y) = Inr c"
  by auto

lemma opaque_scene_returns:
  assumes "\<forall>ob \<in> set objects. opaque_material (material_of ob)" and "lights \<noteq> []"
  shows "opaque_material material \<Longrightarrow>
    \<exists>c. calculatePhongLighting material lights normal viewDir point objects currentObject depth =
      Inr c"
proof (induction "Suc MAX_DEPTH - depth"
    arbitrary: material normal viewDir point currentObject depth rule: less_induct)
  case less
  from less.prems obtain m where Some: "material = Some m"
    and opaque: "\<not> (isRefractive m \<and> 0 < transparency m)"
    by (auto simp: opaque_material_def split: option.splits)
  from assms(2) obtain l0 ls where Cons: "lights = l0 # ls" by (cases lights) auto
  have present: "\<forall>ob \<in> set objects. material_of ob \<noteq> None"
    using assms(1) by (auto simp: opaque_material_def split: option.splits)
  show ?case
  proof (cases "MAX_DEPTH < depth")
    case True
    with Some show ?thesis
      by (subst calculatePhongLighting.simps) simp
  next
    case False
    then have "Suc MAX_DEPTH - (depth + 1) < Suc MAX_DEPTH - depth" by simp
    from less.hyps[OF this]
    have rec: "\<exists>c. calculatePhongLighting (material_of ob) lights n v p objects cur (depth + 1) =
                 Inr c"
      if "findClosestIntersection ray objects = Hit t ob p" for ray t ob p n v cur
      using assms(1) findClosestIntersection_member[OF that] by blast
    obtain fc1 where fc1: "lights_opaque m normal viewDir point objects currentObject lights
        (times_color (Material.ambient m) (Light.ambient l0)) = Inr fc1"
      using lights_opaque_returns[OF present] by blast
    have "\<exists>fc2. (case findClosestIntersection ray objects of
              NoHit \<Rightarrow> Inr fc1
            | Hit t obj p \<Rightarrow>
                (case calculatePhongLighting (material_of obj) lights (N obj p) (V p) p objects
                        (Some obj) (depth + 1) of
                   Inl e \<Rightarrow> Inl e
                 | Inr reflectionColor \<Rightarrow>
                     Inr (plus_scaled fc1 reflectionColor (reflectivity m)))) = Inr fc2"
      for ray N V
    proof (cases "findClosestIntersection ray objects")
      case NoHit
      then show ?thesis by simp
    next
      case (Hit t ob p)
      from rec[OF Hit] obtain c where
        "calculatePhongLighting (material_of ob) lights (N ob p) (V p) p objects (Some ob)
           (depth + 1) = Inr c"
        by blast
      with Hit show ?thesis by simp
    qed
    note sec = this
    have notdeep: "(MAX_DEPTH < depth) = False" using False by simp
    have branch: "(isRefractive m \<and> 0 < transparency m) = False" using opaque by simp
    show ?thesis
      apply (subst calculatePhongLighting.simps)
      apply (simp only: Some option.case notdeep if_False Cons list.case Let_def branch
          fc1[unfolded Cons] sum.case)
      apply (rule bind_returns)
      apply (rule if_returns)
       apply (rule sec[unfolded Cons])
      apply blast
      done
  qed
qed

end
